theory Spec2Isabelle
  imports Main
begin

section \<open>The ACME registration resource of terraform-provider-acme\<close>

text \<open>
  A shallow embedding of \<^verbatim>\<open>acme/resource_acme_registration.go\<close>: the resource's
  schema, its create, read and delete handlers, and the classification \<open>regGone\<close> of
  the errors a certificate authority (CA) answers with.
\<close>

subsection \<open>Go errors and ACME problem documents\<close>

text \<open>
  \<^verbatim>\<open>acme.ProblemDetails\<close> of lego is the RFC 7807 problem document of an ACME
  server. The handlers read two of its fields, \<open>Type\<close> and \<open>HTTPStatus\<close>; \<open>Detail\<close>
  is the text shown to the operator.
\<close>

record ProblemDetails =
  Type :: string
  Detail :: string
  HTTPStatus :: int

text \<open>
  A Go \<^verbatim>\<open>error\<close> is a chain: a problem document, an error that wraps another one
  (\<^verbatim>\<open>fmt.Errorf("...: %w", err)\<close>, with its own message), or an error that carries
  nothing structured (a network failure, a parse error).
\<close>

datatype go_error =
    ProblemError ProblemDetails
  | WrapError string go_error
  | PlainError string

text \<open>
  \<^verbatim>\<open>errors.As(err, &e)\<close> with \<^verbatim>\<open>e *acme.ProblemDetails\<close>: the first error of
  the chain that is a problem document, or failure when the chain holds none.
\<close>

fun errors_As :: "go_error \<Rightarrow> ProblemDetails option" where
  "errors_As (ProblemError p) = Some p"
| "errors_As (WrapError msg inner) = errors_As inner"
| "errors_As (PlainError msg) = None"

text \<open>\<^verbatim>\<open>regGone\<close>, lines 119 to 140.\<close>

definition regGone :: "go_error \<Rightarrow> bool" where
  "regGone err =
     (case errors_As err of
        None \<Rightarrow> False
      | Some e \<Rightarrow>
          if HTTPStatus e = 400 \<and> Type e = ''urn:ietf:params:acme:error:accountDoesNotExist''
          then True
          else if HTTPStatus e = 403 \<and> Type e = ''urn:ietf:params:acme:error:unauthorized''
          then True
          else False)"

subsection \<open>Diagnostics\<close>

text \<open>
  \<^verbatim>\<open>diag.FromErr(err)\<close> is the empty list for a nil error and one diagnostic of
  severity Error for any other; its summary is the error's message, and the model keeps
  the error itself in its place. A handler has succeeded when it returns no diagnostic.
\<close>

datatype Diagnostic = ErrorDiagnostic go_error

definition FromErr :: "go_error option \<Rightarrow> Diagnostic list" where
  "FromErr err = (case err of None \<Rightarrow> [] | Some e \<Rightarrow> [ErrorDiagnostic e])"

subsection \<open>Dynamic values and the resource's data\<close>

text \<open>
  \<^verbatim>\<open>d.GetOk\<close> returns an \<^verbatim>\<open>interface{}\<close>: a dynamically typed value, which
  the create handler takes apart with type assertions. A failed assertion and an index
  out of range are run-time panics.
\<close>

datatype go_value =
    VNil
  | VString string
  | VBool bool
  | VInt int
  | VList "go_value list"
  | VMap "(string \<times> go_value) list"

datatype panic = TypeAssertionFailed | IndexOutOfRange

text \<open>
  \<^verbatim>\<open>schema.ResourceData\<close> of the resource: the four attributes of its schema and
  the ID. The two string attributes are typed by the schema; the binding is kept as the
  raw value \<^verbatim>\<open>d.GetOk\<close> hands out, the empty list when the block is not set. The
  SDK hands out a block whose fields are all zero values as a nil element of the list.
\<close>

record ResourceData =
  account_key_pem :: string
  email_address :: string
  external_account_binding :: go_value
  registration_url :: string
  Id :: string

definition SetId :: "ResourceData \<Rightarrow> string \<Rightarrow> ResourceData" where
  "SetId d v = d\<lparr>Id := v\<rparr>"

definition Get :: "ResourceData \<Rightarrow> string \<Rightarrow> go_value" where
  "Get d k =
     (if k = ''account_key_pem'' then VString (account_key_pem d)
      else if k = ''email_address'' then VString (email_address d)
      else if k = ''external_account_binding'' then external_account_binding d
      else if k = ''registration_url'' then VString (registration_url d)
      else VNil)"

text \<open>The zero values of the schema's types: \<^verbatim>\<open>GetOk\<close> reports them as not set.\<close>

fun is_zero :: "go_value \<Rightarrow> bool" where
  "is_zero VNil = True"
| "is_zero (VString s) = (s = [])"
| "is_zero (VBool b) = (\<not> b)"
| "is_zero (VInt i) = (i = 0)"
| "is_zero (VList xs) = (xs = [])"
| "is_zero (VMap m) = (m = [])"

definition GetOk :: "ResourceData \<Rightarrow> string \<Rightarrow> go_value \<times> bool" where
  "GetOk d k = (Get d k, \<not> is_zero (Get d k))"

text \<open>
  \<^verbatim>\<open>v.([]interface{})[0].(map[string]interface{})[k].(string)\<close>, lines 76 and 77:
  the assertion to a list, the index 0, the assertion to a map, the lookup (nil for a
  key the map lacks), and the assertion to a string, each with its panic.
\<close>

definition eab_field :: "go_value \<Rightarrow> string \<Rightarrow> panic + string" where
  "eab_field v k =
     (case v of
        VList xs \<Rightarrow>
          (case xs of
             [] \<Rightarrow> Inl IndexOutOfRange
           | x # rest \<Rightarrow>
               (case x of
                  VMap m \<Rightarrow>
                    (case map_of m k of
                       Some (VString s) \<Rightarrow> Inr s
                     | _ \<Rightarrow> Inl TypeAssertionFailed)
                | _ \<Rightarrow> Inl TypeAssertionFailed))
      | _ \<Rightarrow> Inl TypeAssertionFailed)"

subsection \<open>The CA and the client\<close>

text \<open>The account as the CA reports it (\<^verbatim>\<open>registration.Resource\<close> of lego).\<close>

record Account =
  Status :: string
  Contact :: "string list"

record registration_Resource =
  Body :: Account
  URI :: string

record User =
  Registration :: registration_Resource

record RegisterOptions =
  TermsOfServiceAgreed :: bool

record RegisterEABOptions = RegisterOptions +
  Kid :: string
  HmacEncoded :: string

text \<open>
  Every call that leaves the process is written to a log, in order. The client type
  \<open>'c\<close> is lego's client, opaque to the handlers.
\<close>

datatype 'c call =
    CallExpandACMEClient ResourceData bool
  | CallRegister 'c RegisterOptions
  | CallRegisterWithExternalAccountBinding 'c RegisterEABOptions
  | CallDeleteRegistration 'c

definition is_registration :: "'c call \<Rightarrow> bool" where
  "is_registration c =
     (case c of
        CallRegister cl opts \<Rightarrow> True
      | CallRegisterWithExternalAccountBinding cl opts \<Rightarrow> True
      | _ \<Rightarrow> False)"

text \<open>
  Modelled from the spec: \<^verbatim>\<open>expandACMEClient\<close> is a function of this package that
  is not in the source file. It is the spec's client factory: given the stored record
  and the provider's configuration it yields a client bound to the record's account key,
  or an error; with \<^verbatim>\<open>loadReg\<close> it also asks the CA for the registration bound to
  that key and returns it as \<^verbatim>\<open>user.Registration\<close>. It reads the record and does not
  write it, so it is a field of the world below.

  The world outside the handlers: what each call answers, given the log of the calls
  made before it. \<open>Register\<close>, \<open>RegisterWithExternalAccountBinding\<close> and
  \<open>DeleteRegistration\<close> are the methods of \<^verbatim>\<open>client.Registration\<close>; the CA behind
  them is arbitrary.
\<close>

record 'c World =
  expandACMEClient :: "'c call list \<Rightarrow> ResourceData \<Rightarrow> bool \<Rightarrow> go_error + ('c \<times> User)"
  Register :: "'c call list \<Rightarrow> 'c \<Rightarrow> RegisterOptions \<Rightarrow> go_error + registration_Resource"
  RegisterWithExternalAccountBinding ::
    "'c call list \<Rightarrow> 'c \<Rightarrow> RegisterEABOptions \<Rightarrow> go_error + registration_Resource"
  DeleteRegistration :: "'c call list \<Rightarrow> 'c \<Rightarrow> go_error option"

text \<open>
  Modelled from the spec: \<^verbatim>\<open>saveACMERegistration\<close> is a function of this package
  that is not in the source file. By the spec, \<open>registration_url\<close> is the one derived
  field of the record, set after creation from what the CA reports, and the account URL
  that identifies the record is assigned at creation only: the function stores the
  registration's URI in \<open>registration_url\<close> and returns no error.
\<close>

definition saveACMERegistration ::
  "ResourceData \<Rightarrow> registration_Resource \<Rightarrow> ResourceData \<times> go_error option" where
  "saveACMERegistration d reg = (d\<lparr>registration_url := URI reg\<rparr>, None)"

subsection \<open>The handlers\<close>

text \<open>
  A handler takes the world, the log so far and the resource data, and returns the
  resource data as it leaves them, its diagnostics and the log.
\<close>

type_synonym 'c outcome = "ResourceData \<times> Diagnostic list \<times> 'c call list"

text \<open>\<^verbatim>\<open>resourceACMERegistrationRead\<close>, lines 95 to 108.\<close>

definition resourceACMERegistrationRead ::
  "'c World \<Rightarrow> 'c call list \<Rightarrow> ResourceData \<Rightarrow> 'c outcome" where
  "resourceACMERegistrationRead w h d =
     (let h1 = h @ [CallExpandACMEClient d True] in
      case expandACMEClient w h d True of
        Inl err \<Rightarrow>
          if regGone err then (SetId d [], [], h1)
          else (d, FromErr (Some err), h1)
      | Inr (client, user) \<Rightarrow>
          (case saveACMERegistration d (Registration user) of
             (d', err) \<Rightarrow> (d', FromErr err, h1)))"

text \<open>
  Lines 71 to 84 of the create handler: the registration call, chosen by
  \<^verbatim>\<open>d.GetOk("external_account_binding")\<close>. The result is the panic of an accessor,
  or the call's answer and the log.
\<close>

definition register_account ::
  "'c World \<Rightarrow> 'c call list \<Rightarrow> 'c \<Rightarrow> ResourceData \<Rightarrow>
     panic + ((go_error + registration_Resource) \<times> 'c call list)" where
  "register_account w h client d =
     (case GetOk d ''external_account_binding'' of
        (v, True) \<Rightarrow>
          (case eab_field v ''key_id'' of
             Inl p \<Rightarrow> Inl p
           | Inr kid \<Rightarrow>
               (case eab_field v ''hmac_base64'' of
                  Inl p \<Rightarrow> Inl p
                | Inr hmac \<Rightarrow>
                    (let opts = \<lparr>TermsOfServiceAgreed = True, Kid = kid, HmacEncoded = hmac\<rparr>
                     in Inr (RegisterWithExternalAccountBinding w h client opts,
                             h @ [CallRegisterWithExternalAccountBinding client opts]))))
      | (v, False) \<Rightarrow>
          (let opts = \<lparr>TermsOfServiceAgreed = True\<rparr>
           in Inr (Register w h client opts, h @ [CallRegister client opts])))"

text \<open>\<^verbatim>\<open>resourceACMERegistrationCreate\<close>, lines 64 to 93.\<close>

definition resourceACMERegistrationCreate ::
  "'c World \<Rightarrow> 'c call list \<Rightarrow> ResourceData \<Rightarrow> panic + 'c outcome" where
  "resourceACMERegistrationCreate w h d =
     (let h1 = h @ [CallExpandACMEClient d False] in
      case expandACMEClient w h d False of
        Inl err \<Rightarrow> Inr (d, FromErr (Some err), h1)
      | Inr (client, user) \<Rightarrow>
          (case register_account w h1 client d of
             Inl p \<Rightarrow> Inl p
           | Inr (Inl err, h2) \<Rightarrow> Inr (d, FromErr (Some err), h2)
           | Inr (Inr reg, h2) \<Rightarrow>
               Inr (resourceACMERegistrationRead w h2 (SetId d (URI reg)))))"

text \<open>\<^verbatim>\<open>resourceACMERegistrationDelete\<close>, lines 110 to 117.\<close>

definition resourceACMERegistrationDelete ::
  "'c World \<Rightarrow> 'c call list \<Rightarrow> ResourceData \<Rightarrow> 'c outcome" where
  "resourceACMERegistrationDelete w h d =
     (let h1 = h @ [CallExpandACMEClient d True] in
      case expandACMEClient w h d True of
        Inl err \<Rightarrow> (d, FromErr (Some err), h1)
      | Inr (client, user) \<Rightarrow>
          (d, FromErr (DeleteRegistration w h1 client), h1 @ [CallDeleteRegistration client]))"

subsection \<open>The schema\<close>

text \<open>
  \<^verbatim>\<open>resourceACMERegistration\<close>, lines 17 to 62. A flag the source leaves out is
  false, \<open>MaxItems\<close> left out is 0 (no bound), and a handler left out is \<open>None\<close>:
  the resource sets no \<^verbatim>\<open>UpdateContext\<close>.
\<close>

datatype ValueType = TypeString | TypeList

record Schema =
  ValType :: ValueType
  Required :: bool
  Optional :: bool
  Computed :: bool
  ForceNew :: bool
  Sensitive :: bool
  MaxItems :: nat

record BlockSchema = Schema +
  Elem :: "(string \<times> Schema) list"

type_synonym 'c handler = "'c World \<Rightarrow> 'c call list \<Rightarrow> ResourceData \<Rightarrow> panic + 'c outcome"

record 'c schema_Resource =
  CreateContext :: "'c handler option"
  ReadContext :: "'c handler option"
  UpdateContext :: "'c handler option"
  DeleteContext :: "'c handler option"
  Schema_map :: "(string \<times> BlockSchema) list"

definition registration_schema :: "(string \<times> BlockSchema) list" where
  "registration_schema =
     [(''account_key_pem'',
         \<lparr>ValType = TypeString, Required = True, Optional = False, Computed = False,
          ForceNew = True, Sensitive = True, MaxItems = 0, Elem = []\<rparr>),
      (''email_address'',
         \<lparr>ValType = TypeString, Required = True, Optional = False, Computed = False,
          ForceNew = True, Sensitive = False, MaxItems = 0, Elem = []\<rparr>),
      (''external_account_binding'',
         \<lparr>ValType = TypeList, Required = False, Optional = True, Computed = False,
          ForceNew = True, Sensitive = False, MaxItems = 1,
          Elem =
            [(''key_id'',
                \<lparr>ValType = TypeString, Required = True, Optional = False,
                 Computed = False, ForceNew = True, Sensitive = True, MaxItems = 0\<rparr>),
             (''hmac_base64'',
                \<lparr>ValType = TypeString, Required = True, Optional = False,
                 Computed = False, ForceNew = True, Sensitive = True, MaxItems = 0\<rparr>)]\<rparr>),
      (''registration_url'',
         \<lparr>ValType = TypeString, Required = False, Optional = False, Computed = True,
          ForceNew = False, Sensitive = False, MaxItems = 0, Elem = []\<rparr>)]"

definition resourceACMERegistration :: "'c schema_Resource" where
  "resourceACMERegistration =
     \<lparr>CreateContext = Some resourceACMERegistrationCreate,
      ReadContext = Some (\<lambda>w h d. Inr (resourceACMERegistrationRead w h d)),
      UpdateContext = None,
      DeleteContext = Some (\<lambda>w h d. Inr (resourceACMERegistrationDelete w h d)),
      Schema_map = registration_schema\<rparr>"

text \<open>The three attributes the caller supplies.\<close>

definition supplied :: "ResourceData \<Rightarrow> string \<times> string \<times> go_value" where
  "supplied d = (account_key_pem d, email_address d, external_account_binding d)"

subsection \<open>Example worlds\<close>

text \<open>
  Concrete records, errors and worlds on which the theorems below are run. The client
  is the account key it is bound to.
\<close>

definition plain_record :: ResourceData where
  "plain_record =
     \<lparr>account_key_pem = ''keyA'', email_address = ''a@example.com'',
      external_account_binding = VList [], registration_url = [], Id = []\<rparr>"

definition eab_record :: ResourceData where
  "eab_record =
     \<lparr>account_key_pem = ''keyB'', email_address = ''b@example.com'',
      external_account_binding =
        VList [VMap [(''key_id'', VString ''K1''), (''hmac_base64'', VString ''aGVsbG8='')]],
      registration_url = [], Id = []\<rparr>"

definition account_gone :: go_error where
  "account_gone =
     ProblemError \<lparr>Type = ''urn:ietf:params:acme:error:accountDoesNotExist'',
       Detail = ''no account for this key'', HTTPStatus = 400\<rparr>"

definition unauthorized :: go_error where
  "unauthorized =
     ProblemError \<lparr>Type = ''urn:ietf:params:acme:error:unauthorized'',
       Detail = ''account is deactivated'', HTTPStatus = 403\<rparr>"

definition rate_limited :: go_error where
  "rate_limited =
     ProblemError \<lparr>Type = ''urn:ietf:params:acme:error:rateLimited'',
       Detail = ''too many registrations'', HTTPStatus = 429\<rparr>"

definition timeout :: go_error where
  "timeout = PlainError ''dial tcp: i/o timeout''"

definition account_1 :: registration_Resource where
  "account_1 =
     \<lparr>Body = \<lparr>Status = ''valid'', Contact = [''mailto:a@example.com'']\<rparr>,
      URI = ''https://ca.example/acct/1''\<rparr>"

text \<open>The record and the log that a successful create of \<open>plain_record\<close> leaves.\<close>

definition live_record :: ResourceData where
  "live_record =
     \<lparr>account_key_pem = ''keyA'', email_address = ''a@example.com'',
      external_account_binding = VList [],
      registration_url = ''https://ca.example/acct/1'',
      Id = ''https://ca.example/acct/1''\<rparr>"

definition created_log :: "string call list" where
  "created_log =
     [CallExpandACMEClient plain_record False,
      CallRegister ''keyA'' \<lparr>TermsOfServiceAgreed = True\<rparr>,
      CallExpandACMEClient (plain_record\<lparr>Id := ''https://ca.example/acct/1''\<rparr>) True]"

definition registered :: "string call list \<Rightarrow> bool" where
  "registered h = list_ex is_registration h"

definition deactivated :: "string call list \<Rightarrow> bool" where
  "deactivated h =
     list_ex (\<lambda>c. case c of CallDeleteRegistration cl \<Rightarrow> True | other \<Rightarrow> False) h"

text \<open>
  A CA that follows RFC 8555 for one account: a lookup before the registration answers
  400 accountDoesNotExist, after it the account, and after the deactivation 403
  unauthorized; it registers with or without a binding.
\<close>

definition ca_world :: "string World" where
  "ca_world =
     \<lparr>expandACMEClient =
        (\<lambda>h d loadReg.
           if \<not> loadReg then Inr (account_key_pem d, \<lparr>Registration = account_1\<rparr>)
           else if deactivated h then Inl unauthorized
           else if registered h then Inr (account_key_pem d, \<lparr>Registration = account_1\<rparr>)
           else Inl account_gone),
      Register = (\<lambda>h client opts. Inr account_1),
      RegisterWithExternalAccountBinding = (\<lambda>h client opts. Inr account_1),
      DeleteRegistration = (\<lambda>h client. if deactivated h then Some unauthorized else None)\<rparr>"

text \<open>
  A CA that answers every registration and every deactivation with the error \<open>e\<close>.
\<close>

definition refusing_world :: "go_error \<Rightarrow> string World" where
  "refusing_world e =
     \<lparr>expandACMEClient =
        (\<lambda>h d loadReg. Inr (account_key_pem d, \<lparr>Registration = account_1\<rparr>)),
      Register = (\<lambda>h client opts. Inl e),
      RegisterWithExternalAccountBinding = (\<lambda>h client opts. Inl e),
      DeleteRegistration = (\<lambda>h client. Some e)\<rparr>"


definition nil_block_record :: ResourceData where
  "nil_block_record =
     \<lparr>account_key_pem = ''keyB'', email_address = ''b@example.com'',
      external_account_binding = VList [VNil],
      registration_url = [], Id = []\<rparr>"



definition deactivated_account :: registration_Resource where
  "deactivated_account =
     \<lparr>Body = \<lparr>Status = ''deactivated'', Contact = [''mailto:a@example.com'']\<rparr>,
      URI = ''https://ca.example/acct/1''\<rparr>"


text \<open>
  A CA that registers the account and reports it as deactivated at every lookup.
\<close>

definition stale_status_world :: "string World" where
  "stale_status_world =
     \<lparr>expandACMEClient =
        (\<lambda>h d loadReg. Inr (account_key_pem d, \<lparr>Registration = deactivated_account\<rparr>)),
      Register = (\<lambda>h client opts. Inr account_1),
      RegisterWithExternalAccountBinding = (\<lambda>h client opts. Inr account_1),
      DeleteRegistration = (\<lambda>h client. None)\<rparr>"

text \<open>A world in which no client can be built.\<close>

definition offline_world :: "string World" where
  "offline_world =
     \<lparr>expandACMEClient = (\<lambda>h d loadReg. Inl timeout),
      Register = (\<lambda>h client opts. Inl timeout),
      RegisterWithExternalAccountBinding = (\<lambda>h client opts. Inl timeout),
      DeleteRegistration = (\<lambda>h client. Some timeout)\<rparr>"

text \<open>
  A CA that registers the account and whose answer to the lookup that follows is the
  error \<open>e\<close>.
\<close>

definition lookup_fails_world :: "go_error \<Rightarrow> string World" where
  "lookup_fails_world e =
     \<lparr>expandACMEClient =
        (\<lambda>h d loadReg.
           if loadReg then Inl e
           else Inr (account_key_pem d, \<lparr>Registration = account_1\<rparr>)),
      Register = (\<lambda>h client opts. Inr account_1),
      RegisterWithExternalAccountBinding = (\<lambda>h client opts. Inr account_1),
      DeleteRegistration = (\<lambda>h client. None)\<rparr>"

section \<open>Properties\<close>

subsection \<open>Steps of the handlers\<close>

text \<open>
  The lemmas the properties share: what the registration step does for a record with
  and without a binding, what the read handler adds to the log and leaves alone, and the
  three ways the create handler ends.
\<close>

lemmas handler_defs =
  resourceACMERegistrationCreate_def resourceACMERegistrationRead_def
  resourceACMERegistrationDelete_def register_account_def GetOk_def Get_def
  eab_field_def saveACMERegistration_def SetId_def FromErr_def regGone_def Let_def

lemma GetOk_binding:
  "GetOk d ''external_account_binding'' =
     (external_account_binding d, \<not> is_zero (external_account_binding d))"
  by (simp add: GetOk_def Get_def)

lemma register_account_plain:
  assumes "external_account_binding d = VList []"
  shows "register_account w h client d =
     Inr (Register w h client \<lparr>TermsOfServiceAgreed = True\<rparr>,
          h @ [CallRegister client \<lparr>TermsOfServiceAgreed = True\<rparr>])"
  using assms by (simp add: register_account_def GetOk_binding Let_def)



lemma Read_supplied:
  "supplied (fst (resourceACMERegistrationRead w h d)) = supplied d"
  by (simp add: resourceACMERegistrationRead_def Let_def saveACMERegistration_def
      supplied_def SetId_def split: sum.splits prod.splits)

lemma Create_client_error:
  assumes "expandACMEClient w h d False = Inl err"
  shows "resourceACMERegistrationCreate w h d =
     Inr (d, [ErrorDiagnostic err], h @ [CallExpandACMEClient d False])"
  using assms by (simp add: resourceACMERegistrationCreate_def FromErr_def)

lemma Create_registration_error:
  assumes "expandACMEClient w h d False = Inr (client, user)"
    and "register_account w (h @ [CallExpandACMEClient d False]) client d = Inr (Inl err, h2)"
  shows "resourceACMERegistrationCreate w h d = Inr (d, [ErrorDiagnostic err], h2)"
  using assms by (simp add: resourceACMERegistrationCreate_def FromErr_def)

lemma Create_registered:
  assumes "expandACMEClient w h d False = Inr (client, user)"
    and "register_account w (h @ [CallExpandACMEClient d False]) client d = Inr (Inr reg, h2)"
  shows "resourceACMERegistrationCreate w h d =
     Inr (resourceACMERegistrationRead w h2 (SetId d (URI reg)))"
  using assms by (simp add: resourceACMERegistrationCreate_def)

lemma Create_changes_only_after_registration:
  assumes "resourceACMERegistrationCreate w h d = Inr (d', diags, h')" and "d' \<noteq> d"
  shows "\<exists>client user reg h2.
     expandACMEClient w h d False = Inr (client, user)
     \<and> register_account w (h @ [CallExpandACMEClient d False]) client d = Inr (Inr reg, h2)"
  using assms
  by (auto simp add: resourceACMERegistrationCreate_def Let_def
      split: sum.splits prod.splits)

lemma Create_supplied:
  assumes "resourceACMERegistrationCreate w h d = Inr (d', diags, h')"
  shows "supplied d' = supplied d"
proof (cases "d' = d")
  case True
  then show ?thesis by simp
next
  case False
  with assms obtain client user reg h2 where
    c: "expandACMEClient w h d False = Inr (client, user)" and
    r: "register_account w (h @ [CallExpandACMEClient d False]) client d = Inr (Inr reg, h2)"
    using Create_changes_only_after_registration by blast
  from assms Create_registered [OF c r]
  have "d' = fst (resourceACMERegistrationRead w h2 (SetId d (URI reg)))"
    by simp
  then have "supplied d' = supplied (SetId d (URI reg))"
    by (simp add: Read_supplied)
  then show ?thesis by (simp add: supplied_def SetId_def)
qed

lemma register_account_log:
  assumes "register_account w h client d = Inr (answer, h2)"
  shows "\<exists>c. is_registration c \<and> h2 = h @ [c]"
  using assms
  by (auto simp add: register_account_def Let_def is_registration_def
      split: prod.splits bool.splits sum.splits if_splits)





lemma Create_nil_block:
  assumes "expandACMEClient w h d False = Inr (client, user)"
    and "external_account_binding d = VList (VNil # rest)"
  shows "resourceACMERegistrationCreate w h d = Inl TypeAssertionFailed"
  using assms
  by (simp add: resourceACMERegistrationCreate_def register_account_def GetOk_binding
      eab_field_def)

subsection \<open>Error classification\<close>

text \<open>
  C1. \<open>regGone\<close> answers true exactly for an error that carries a problem document
  whose status is 400 and whose type is \<open>urn:ietf:params:acme:error:accountDoesNotExist\<close>,
  or whose status is 403 and whose type is \<open>urn:ietf:params:acme:error:unauthorized\<close>.
  Every other error, one without a problem document included, is a real error.
\<close>

theorem regGone_exact:
  "regGone err =
     (\<exists>p. errors_As err = Some p \<and>
        (HTTPStatus p = 400 \<and> Type p = ''urn:ietf:params:acme:error:accountDoesNotExist''
         \<or> HTTPStatus p = 403 \<and> Type p = ''urn:ietf:params:acme:error:unauthorized''))"
  by (cases "errors_As err") (simp_all add: regGone_def)

theorem regGone_exact_witness:
  "regGone (ProblemError \<lparr>Type = ''urn:ietf:params:acme:error:accountDoesNotExist'',
      Detail = ''no such account'', HTTPStatus = 400\<rparr>)
   \<and> \<not> regGone (ProblemError \<lparr>Type = ''urn:ietf:params:acme:error:malformed'',
      Detail = ''bad request'', HTTPStatus = 400\<rparr>)
   \<and> regGone (WrapError ''loading registration''
      (ProblemError \<lparr>Type = ''urn:ietf:params:acme:error:unauthorized'',
         Detail = ''account deactivated'', HTTPStatus = 403\<rparr>))
   \<and> \<not> regGone (ProblemError \<lparr>Type = ''urn:ietf:params:acme:error:rateLimited'',
      Detail = ''slow down'', HTTPStatus = 403\<rparr>)
   \<and> \<not> regGone (ProblemError \<lparr>Type = ''urn:ietf:params:acme:error:unauthorized'',
      Detail = ''account deactivated'', HTTPStatus = 400\<rparr>)
   \<and> \<not> regGone (PlainError ''dial tcp: connection refused'')"
  unfolding regGone_exact by simp

subsection \<open>Delete\<close>

text \<open>
  C2 (amended). The delete handler applies no classification. It reports success only
  when the account lookup and the deactivation both succeed; an error of either, one that
  \<open>regGone\<close> classifies as "account gone" included, is returned unchanged as its
  diagnostic, and the record is left untouched.
\<close>

theorem delete_surfaces_every_error:
  "(expandACMEClient w h d True = Inl err \<longrightarrow>
      resourceACMERegistrationDelete w h d =
        (d, [ErrorDiagnostic err], h @ [CallExpandACMEClient d True]))
   \<and> (expandACMEClient w h d True = Inr (client, user) \<longrightarrow>
        DeleteRegistration w (h @ [CallExpandACMEClient d True]) client = Some err \<longrightarrow>
      resourceACMERegistrationDelete w h d =
        (d, [ErrorDiagnostic err],
         h @ [CallExpandACMEClient d True, CallDeleteRegistration client]))
   \<and> (expandACMEClient w h d True = Inr (client, user) \<longrightarrow>
        DeleteRegistration w (h @ [CallExpandACMEClient d True]) client = None \<longrightarrow>
      resourceACMERegistrationDelete w h d =
        (d, [], h @ [CallExpandACMEClient d True, CallDeleteRegistration client]))"
  by (simp add: resourceACMERegistrationDelete_def FromErr_def)

text \<open>
  A CA that refuses the deactivation: the refusal is the handler's diagnostic.
\<close>

theorem delete_surfaces_every_error_witness:
  "expandACMEClient (refusing_world rate_limited) [] live_record True
     = Inr (''keyA'', \<lparr>Registration = account_1\<rparr>)
   \<and> DeleteRegistration (refusing_world rate_limited)
        [CallExpandACMEClient live_record True] ''keyA'' = Some rate_limited
   \<and> resourceACMERegistrationDelete (refusing_world rate_limited) [] live_record
     = (live_record, [ErrorDiagnostic rate_limited],
        [CallExpandACMEClient live_record True, CallDeleteRegistration ''keyA''])"
proof -
  have a: "expandACMEClient (refusing_world rate_limited) [] live_record True
     = Inr (''keyA'', \<lparr>Registration = account_1\<rparr>)"
    by (simp add: refusing_world_def live_record_def)
  have b: "DeleteRegistration (refusing_world rate_limited)
        ([] @ [CallExpandACMEClient live_record True]) ''keyA'' = Some rate_limited"
    by (simp add: refusing_world_def)
  from delete_surfaces_every_error
    [of "refusing_world rate_limited" "[]" live_record rate_limited "''keyA''"
        "\<lparr>Registration = account_1\<rparr>"] a b
  have "resourceACMERegistrationDelete (refusing_world rate_limited) [] live_record
     = (live_record, [ErrorDiagnostic rate_limited],
        [] @ [CallExpandACMEClient live_record True, CallDeleteRegistration ''keyA''])"
    by blast
  with a b show ?thesis by simp
qed

text \<open>
  C2 as stated fails. The account is created and deleted, and the handler is called a
  second time: the CA now answers the lookup with 403 unauthorized, which \<open>regGone\<close>
  classifies as "account gone", and the handler returns it as an error.
\<close>

theorem delete_twice_reports_error:
  "resourceACMERegistrationCreate ca_world [] plain_record
     = Inr (live_record, [], created_log)
   \<and> resourceACMERegistrationDelete ca_world created_log live_record
     = (live_record, [],
        created_log @ [CallExpandACMEClient live_record True,
                       CallDeleteRegistration ''keyA''])
   \<and> resourceACMERegistrationDelete ca_world
        (created_log @ [CallExpandACMEClient live_record True,
                        CallDeleteRegistration ''keyA'']) live_record
     = (live_record, [ErrorDiagnostic unauthorized],
        created_log @ [CallExpandACMEClient live_record True,
                       CallDeleteRegistration ''keyA'',
                       CallExpandACMEClient live_record True])
   \<and> regGone unauthorized"
  by (simp add: handler_defs plain_record_def live_record_def created_log_def
      unauthorized_def ca_world_def registered_def deactivated_def is_registration_def account_1_def)

subsection \<open>Read\<close>

text \<open>
  C3. When the lookup of the read handler fails with an error that \<open>regGone\<close>
  classifies as "account gone", the handler sets the ID to the empty string and returns
  no diagnostic: the absence is reported as a success, not as an error.
\<close>

theorem read_account_gone_clears:
  assumes "expandACMEClient w h d True = Inl err" and "regGone err"
  shows "resourceACMERegistrationRead w h d =
     (d\<lparr>Id := []\<rparr>, [], h @ [CallExpandACMEClient d True])"
  using assms by (simp add: resourceACMERegistrationRead_def SetId_def)

text \<open>
  The CA has no account for the key of a record that holds an account URL.
\<close>

theorem read_account_gone_clears_witness:
  "expandACMEClient ca_world [] live_record True = Inl account_gone
   \<and> regGone account_gone
   \<and> resourceACMERegistrationRead ca_world [] live_record
     = (live_record\<lparr>Id := []\<rparr>, [], [CallExpandACMEClient live_record True])"
proof -
  have a: "expandACMEClient ca_world [] live_record True = Inl account_gone"
    by (simp add: ca_world_def registered_def deactivated_def)
  have b: "regGone account_gone"
    by (simp add: regGone_def account_gone_def)
  from read_account_gone_clears [OF a b] a b show ?thesis by simp
qed

text \<open>
  C4. When the lookup of the read handler fails with an error that \<open>regGone\<close> does
  not classify as "account gone", the handler returns that error as its diagnostic and
  the record is as it was: the ID is kept and no field is written.
\<close>

theorem read_real_error_surfaced:
  assumes "expandACMEClient w h d True = Inl err" and "\<not> regGone err"
  shows "resourceACMERegistrationRead w h d =
     (d, [ErrorDiagnostic err], h @ [CallExpandACMEClient d True])"
  using assms by (simp add: resourceACMERegistrationRead_def FromErr_def)

text \<open>
  A network failure while a record holds an account URL.
\<close>

theorem read_real_error_surfaced_witness:
  "expandACMEClient offline_world [] live_record True = Inl timeout
   \<and> \<not> regGone timeout
   \<and> resourceACMERegistrationRead offline_world [] live_record
     = (live_record, [ErrorDiagnostic timeout], [CallExpandACMEClient live_record True])"
proof -
  have a: "expandACMEClient offline_world [] live_record True = Inl timeout"
    by (simp add: offline_world_def)
  have b: "\<not> regGone timeout"
    by (simp add: regGone_def timeout_def)
  from read_real_error_surfaced [OF a b] a b show ?thesis by simp
qed

subsection \<open>Create\<close>




text \<open>
  C6 (amended). The create handler assigns the ID only after the registration call has
  succeeded. When the client construction it starts with fails, or the CA rejects the
  registration, the error is returned unchanged as the diagnostic, after one attempt and
  no retry, and the record is left untouched. When the read that the handler ends with
  fails with a real error, that error is returned too, and the record keeps the ID just
  assigned.
\<close>

theorem create_failure_leaves_record:
  "(expandACMEClient w h d False = Inl err \<longrightarrow>
      resourceACMERegistrationCreate w h d =
        Inr (d, [ErrorDiagnostic err], h @ [CallExpandACMEClient d False]))
   \<and> (expandACMEClient w h d False = Inr (client, user)
        \<and> register_account w (h @ [CallExpandACMEClient d False]) client d
            = Inr (Inl err, h2) \<longrightarrow>
      resourceACMERegistrationCreate w h d = Inr (d, [ErrorDiagnostic err], h2)
      \<and> (\<exists>c. is_registration c \<and> h2 = h @ [CallExpandACMEClient d False, c]))
   \<and> (resourceACMERegistrationCreate w h d = Inr (d', diags, h') \<and> d' \<noteq> d \<longrightarrow>
      (\<exists>cl us reg h3.
         expandACMEClient w h d False = Inr (cl, us)
         \<and> register_account w (h @ [CallExpandACMEClient d False]) cl d
             = Inr (Inr reg, h3)))
   \<and> (expandACMEClient w h d False = Inr (client, user)
        \<and> register_account w (h @ [CallExpandACMEClient d False]) client d
            = Inr (Inr reg, h2)
        \<and> expandACMEClient w h2 (SetId d (URI reg)) True = Inl err
        \<and> \<not> regGone err \<longrightarrow>
      resourceACMERegistrationCreate w h d =
        Inr (d\<lparr>Id := URI reg\<rparr>, [ErrorDiagnostic err],
             h2 @ [CallExpandACMEClient (SetId d (URI reg)) True]))"
proof (intro conjI impI)
  assume "expandACMEClient w h d False = Inl err"
  then show "resourceACMERegistrationCreate w h d =
        Inr (d, [ErrorDiagnostic err], h @ [CallExpandACMEClient d False])"
    by (rule Create_client_error)
next
  assume a: "expandACMEClient w h d False = Inr (client, user)
        \<and> register_account w (h @ [CallExpandACMEClient d False]) client d
            = Inr (Inl err, h2)"
  then show "resourceACMERegistrationCreate w h d = Inr (d, [ErrorDiagnostic err], h2)"
    by (simp add: Create_registration_error)
  from a register_account_log
  show "\<exists>c. is_registration c \<and> h2 = h @ [CallExpandACMEClient d False, c]"
    by fastforce
next
  assume "resourceACMERegistrationCreate w h d = Inr (d', diags, h') \<and> d' \<noteq> d"
  then show "\<exists>cl us reg h3.
         expandACMEClient w h d False = Inr (cl, us)
         \<and> register_account w (h @ [CallExpandACMEClient d False]) cl d
             = Inr (Inr reg, h3)"
    using Create_changes_only_after_registration by blast
next
  assume a: "expandACMEClient w h d False = Inr (client, user)
        \<and> register_account w (h @ [CallExpandACMEClient d False]) client d
            = Inr (Inr reg, h2)
        \<and> expandACMEClient w h2 (SetId d (URI reg)) True = Inl err
        \<and> \<not> regGone err"
  then have "resourceACMERegistrationCreate w h d =
     Inr (resourceACMERegistrationRead w h2 (SetId d (URI reg)))"
    by (simp add: Create_registered)
  with a show "resourceACMERegistrationCreate w h d =
        Inr (d\<lparr>Id := URI reg\<rparr>, [ErrorDiagnostic err],
             h2 @ [CallExpandACMEClient (SetId d (URI reg)) True])"
    by (simp add: resourceACMERegistrationRead_def FromErr_def SetId_def)
qed

text \<open>
  A CA that rejects the registration of a record with a binding.
\<close>

theorem create_failure_leaves_record_witness:
  "expandACMEClient (refusing_world rate_limited) [] eab_record False
     = Inr (''keyB'', \<lparr>Registration = account_1\<rparr>)
   \<and> register_account (refusing_world rate_limited)
        [CallExpandACMEClient eab_record False] ''keyB'' eab_record
     = Inr (Inl rate_limited,
        [CallExpandACMEClient eab_record False,
         CallRegisterWithExternalAccountBinding ''keyB''
           \<lparr>TermsOfServiceAgreed = True, Kid = ''K1'', HmacEncoded = ''aGVsbG8=''\<rparr>])
   \<and> resourceACMERegistrationCreate (refusing_world rate_limited) [] eab_record
     = Inr (eab_record, [ErrorDiagnostic rate_limited],
        [CallExpandACMEClient eab_record False,
         CallRegisterWithExternalAccountBinding ''keyB''
           \<lparr>TermsOfServiceAgreed = True, Kid = ''K1'', HmacEncoded = ''aGVsbG8=''\<rparr>])"
proof -
  let ?h2 = "[CallExpandACMEClient eab_record False,
         CallRegisterWithExternalAccountBinding ''keyB''
           \<lparr>TermsOfServiceAgreed = True, Kid = ''K1'', HmacEncoded = ''aGVsbG8=''\<rparr>]"
  have a: "expandACMEClient (refusing_world rate_limited) [] eab_record False
     = Inr (''keyB'', \<lparr>Registration = account_1\<rparr>)"
    by (simp add: refusing_world_def eab_record_def)
  have b: "register_account (refusing_world rate_limited)
        ([] @ [CallExpandACMEClient eab_record False]) ''keyB'' eab_record
     = Inr (Inl rate_limited, ?h2)"
    by (simp add: register_account_def GetOk_def Get_def eab_field_def Let_def
        refusing_world_def eab_record_def)
  from create_failure_leaves_record
    [of "refusing_world rate_limited" "[]" eab_record rate_limited "''keyB''"
        "\<lparr>Registration = account_1\<rparr>" ?h2] a b
  have "resourceACMERegistrationCreate (refusing_world rate_limited) [] eab_record
     = Inr (eab_record, [ErrorDiagnostic rate_limited], ?h2)"
    by blast
  with a b show ?thesis by simp
qed

text \<open>
  C6 as stated fails. The CA registers the account, the ID is assigned, and the lookup
  of the closing read times out: the create handler returns the error, and the record it
  leaves holds the account URL.
\<close>

theorem create_fails_with_id_assigned:
  "resourceACMERegistrationCreate (lookup_fails_world timeout) [] plain_record
     = Inr (plain_record\<lparr>Id := ''https://ca.example/acct/1''\<rparr>,
            [ErrorDiagnostic timeout], created_log)
   \<and> Id plain_record = []"
  by (simp add: handler_defs plain_record_def created_log_def timeout_def
      lookup_fails_world_def account_1_def)

text \<open>
  C10 (amended). \<open>regGone\<close> is applied in the read handler only. An error of the
  create handler's own client construction or of its registration call, one that
  \<open>regGone\<close> classifies as "account gone" included, is returned as the diagnostic of a
  failed create and the record is left untouched. After a registration that succeeded
  the create handler returns what the read handler returns for the record with the new
  ID, the classification of a failed lookup included.
\<close>

theorem create_own_errors_not_classified:
  "(regGone err
      \<and> (expandACMEClient w h d False = Inl err
         \<or> expandACMEClient w h d False = Inr (client, user)
           \<and> register_account w (h @ [CallExpandACMEClient d False]) client d
               = Inr (Inl err, h2)) \<longrightarrow>
      (\<exists>h'. resourceACMERegistrationCreate w h d = Inr (d, [ErrorDiagnostic err], h')))
   \<and> (expandACMEClient w h d False = Inr (client, user)
        \<and> register_account w (h @ [CallExpandACMEClient d False]) client d
            = Inr (Inr reg, h2) \<longrightarrow>
      resourceACMERegistrationCreate w h d =
        Inr (resourceACMERegistrationRead w h2 (SetId d (URI reg))))"
  by (auto simp add: Create_client_error Create_registration_error Create_registered)

text \<open>
  A CA that answers the registration with 403 unauthorized.
\<close>

theorem create_own_errors_not_classified_witness:
  "regGone unauthorized
   \<and> expandACMEClient (refusing_world unauthorized) [] plain_record False
     = Inr (''keyA'', \<lparr>Registration = account_1\<rparr>)
   \<and> register_account (refusing_world unauthorized)
        [CallExpandACMEClient plain_record False] ''keyA'' plain_record
     = Inr (Inl unauthorized,
        [CallExpandACMEClient plain_record False,
         CallRegister ''keyA'' \<lparr>TermsOfServiceAgreed = True\<rparr>])
   \<and> (\<exists>h'. resourceACMERegistrationCreate (refusing_world unauthorized) [] plain_record
        = Inr (plain_record, [ErrorDiagnostic unauthorized], h'))"
proof -
  let ?h2 = "[CallExpandACMEClient plain_record False,
         CallRegister ''keyA'' \<lparr>TermsOfServiceAgreed = True\<rparr>]"
  have g: "regGone unauthorized"
    by (simp add: regGone_def unauthorized_def)
  have a: "expandACMEClient (refusing_world unauthorized) [] plain_record False
     = Inr (''keyA'', \<lparr>Registration = account_1\<rparr>)"
    by (simp add: refusing_world_def plain_record_def)
  have b: "register_account (refusing_world unauthorized)
        ([] @ [CallExpandACMEClient plain_record False]) ''keyA'' plain_record
     = Inr (Inl unauthorized, ?h2)"
    by (simp add: register_account_def GetOk_def Get_def Let_def
        refusing_world_def plain_record_def)
  from create_own_errors_not_classified
    [of unauthorized "refusing_world unauthorized" "[]" plain_record "''keyA''"
        "\<lparr>Registration = account_1\<rparr>" ?h2] g a b
  have "\<exists>h'. resourceACMERegistrationCreate (refusing_world unauthorized) [] plain_record
        = Inr (plain_record, [ErrorDiagnostic unauthorized], h')"
    by blast
  with g a b show ?thesis by simp
qed

text \<open>
  C10 as stated fails. The CA registers the account and answers the lookup of the
  closing read with 400 accountDoesNotExist: the create handler returns no diagnostic
  and the ID it had assigned is cleared.
\<close>

theorem create_classifies_lookup_error:
  "regGone account_gone
   \<and> resourceACMERegistrationCreate (lookup_fails_world account_gone) [] plain_record
     = Inr (plain_record\<lparr>Id := []\<rparr>, [], created_log)"
  by (simp add: handler_defs plain_record_def created_log_def account_gone_def
      lookup_fails_world_def account_1_def)

subsection \<open>The accessors of the binding\<close>

text \<open>
  C9. The accessors of lines 76 and 77 are unchecked, and a record that the declared
  schema admits makes them fault. A binding block in which \<open>key_id\<close> and
  \<open>hmac_base64\<close> are both set to the empty string reaches the handler as a list with
  one nil element: \<^verbatim>\<open>GetOk\<close> reports the binding as set, and whenever the client has
  been built the create handler panics at the assertion of the element to a map.
\<close>

theorem create_panics_on_nil_block:
  assumes "expandACMEClient w h d False = Inr (client, user)"
    and "external_account_binding d = VList (VNil # rest)"
  shows "GetOk d ''external_account_binding'' = (VList (VNil # rest), True)
     \<and> resourceACMERegistrationCreate w h d = Inl TypeAssertionFailed"
  using assms by (simp add: Create_nil_block GetOk_binding)

theorem create_panics_on_nil_block_witness:
  "expandACMEClient ca_world [] nil_block_record False
     = Inr (''keyB'', \<lparr>Registration = account_1\<rparr>)
   \<and> external_account_binding nil_block_record = VList [VNil]
   \<and> GetOk nil_block_record ''external_account_binding'' = (VList [VNil], True)
   \<and> resourceACMERegistrationCreate ca_world [] nil_block_record = Inl TypeAssertionFailed"
proof -
  have a: "expandACMEClient ca_world [] nil_block_record False
     = Inr (''keyB'', \<lparr>Registration = account_1\<rparr>)"
    by (simp add: ca_world_def nil_block_record_def)
  have b: "external_account_binding nil_block_record = VList (VNil # [])"
    by (simp add: nil_block_record_def)
  from create_panics_on_nil_block [OF a b] a b show ?thesis by simp
qed

subsection \<open>Write-once attributes\<close>

text \<open>
  C7. The resource has no update handler; \<open>account_key_pem\<close>,
  \<open>email_address\<close> and \<open>external_account_binding\<close>, with its \<open>key_id\<close> and
  \<open>hmac_base64\<close>, are all declared \<open>ForceNew\<close>, so that a change of one of them
  replaces the resource; and no handler of the resource changes the value of one of the
  three.
\<close>

theorem write_once_fields:
  "UpdateContext (resourceACMERegistration :: 'c schema_Resource) = None
   \<and> (\<forall>k \<in> {''account_key_pem'', ''email_address'', ''external_account_binding''}.
        \<exists>b. map_of registration_schema k = Some b \<and> ForceNew b
          \<and> list_all (\<lambda>(k', s). ForceNew s) (Elem b))
   \<and> (\<exists>b. map_of registration_schema ''external_account_binding'' = Some b
        \<and> map (\<lambda>(k', s). k') (Elem b) = [''key_id'', ''hmac_base64''])
   \<and> (\<forall>f \<in> set_option (CreateContext (resourceACMERegistration :: 'c schema_Resource))
             \<union> set_option (ReadContext (resourceACMERegistration :: 'c schema_Resource))
             \<union> set_option (DeleteContext (resourceACMERegistration :: 'c schema_Resource)).
        \<forall>w h d d' diags h'. f w h d = Inr (d', diags, h') \<longrightarrow> supplied d' = supplied d)"
proof (intro conjI)
  show "UpdateContext (resourceACMERegistration :: 'c schema_Resource) = None"
    by (simp add: resourceACMERegistration_def)
  show "\<forall>k \<in> {''account_key_pem'', ''email_address'', ''external_account_binding''}.
        \<exists>b. map_of registration_schema k = Some b \<and> ForceNew b
          \<and> list_all (\<lambda>(k', s). ForceNew s) (Elem b)"
    by (simp add: registration_schema_def)
  show "\<exists>b. map_of registration_schema ''external_account_binding'' = Some b
        \<and> map (\<lambda>(k', s). k') (Elem b) = [''key_id'', ''hmac_base64'']"
    by (simp add: registration_schema_def)
  show "\<forall>f \<in> set_option (CreateContext (resourceACMERegistration :: 'c schema_Resource))
             \<union> set_option (ReadContext (resourceACMERegistration :: 'c schema_Resource))
             \<union> set_option (DeleteContext (resourceACMERegistration :: 'c schema_Resource)).
        \<forall>w h d d' diags h'. f w h d = Inr (d', diags, h') \<longrightarrow> supplied d' = supplied d"
  proof (intro ballI allI impI)
    fix f :: "'c handler" and w h d d' diags h'
    assume f: "f \<in> set_option (CreateContext (resourceACMERegistration :: 'c schema_Resource))
             \<union> set_option (ReadContext (resourceACMERegistration :: 'c schema_Resource))
             \<union> set_option (DeleteContext (resourceACMERegistration :: 'c schema_Resource))"
      and r: "f w h d = Inr (d', diags, h')"
    from f consider
        "f = resourceACMERegistrationCreate"
      | "f = (\<lambda>w h d. Inr (resourceACMERegistrationRead w h d))"
      | "f = (\<lambda>w h d. Inr (resourceACMERegistrationDelete w h d))"
      by (auto simp add: resourceACMERegistration_def)
    then show "supplied d' = supplied d"
    proof cases
      case 1
      with r show ?thesis using Create_supplied by blast
    next
      case 2
      with r have "d' = fst (resourceACMERegistrationRead w h d)" by simp
      then show ?thesis by (simp add: Read_supplied)
    next
      case 3
      with r show ?thesis
        by (simp add: resourceACMERegistrationDelete_def Let_def split: sum.splits prod.splits)
    qed
  qed
qed

theorem write_once_fields_witness:
  "resourceACMERegistrationCreate ca_world [] eab_record
     = Inr (eab_record\<lparr>registration_url := ''https://ca.example/acct/1'',
                        Id := ''https://ca.example/acct/1''\<rparr>, [],
        [CallExpandACMEClient eab_record False,
         CallRegisterWithExternalAccountBinding ''keyB''
           \<lparr>TermsOfServiceAgreed = True, Kid = ''K1'', HmacEncoded = ''aGVsbG8=''\<rparr>,
         CallExpandACMEClient (eab_record\<lparr>Id := ''https://ca.example/acct/1''\<rparr>) True])
   \<and> supplied (eab_record\<lparr>registration_url := ''https://ca.example/acct/1'',
                          Id := ''https://ca.example/acct/1''\<rparr>)
     = supplied eab_record"
proof -
  have ev: "resourceACMERegistrationCreate ca_world [] eab_record
     = Inr (eab_record\<lparr>registration_url := ''https://ca.example/acct/1'',
                        Id := ''https://ca.example/acct/1''\<rparr>, [],
        [CallExpandACMEClient eab_record False,
         CallRegisterWithExternalAccountBinding ''keyB''
           \<lparr>TermsOfServiceAgreed = True, Kid = ''K1'', HmacEncoded = ''aGVsbG8=''\<rparr>,
         CallExpandACMEClient (eab_record\<lparr>Id := ''https://ca.example/acct/1''\<rparr>) True])"
    by (simp add: handler_defs eab_record_def ca_world_def registered_def deactivated_def is_registration_def account_1_def)
  have "(resourceACMERegistrationCreate :: string handler)
      \<in> set_option (CreateContext (resourceACMERegistration :: string schema_Resource))
        \<union> set_option (ReadContext (resourceACMERegistration :: string schema_Resource))
        \<union> set_option (DeleteContext (resourceACMERegistration :: string schema_Resource))"
    by (simp add: resourceACMERegistration_def)
  with write_once_fields [where 'c = string]
  have "\<forall>(w :: string World) h d d' diags h'.
      resourceACMERegistrationCreate w h d = Inr (d', diags, h') \<longrightarrow>
      supplied d' = supplied d"
    by blast
  with ev have "supplied (eab_record\<lparr>registration_url := ''https://ca.example/acct/1'',
                          Id := ''https://ca.example/acct/1''\<rparr>)
     = supplied eab_record"
    by blast
  with ev show ?thesis by simp
qed

subsection \<open>Create, then refresh\<close>

text \<open>
  C8 (amended). For a record with no binding, against a CA that accepts the
  registration and answers the two lookups that follow with an account: the create
  handler succeeds and the ID is the URI the registration returned; the read handler
  that follows succeeds too and leaves the ID as it is, writing only
  \<open>registration_url\<close>, from the URI the CA reports. The handlers neither read nor
  store the status of the account: the result is the same whatever status the CA
  reports.
\<close>

theorem create_then_refresh:
  assumes client: "expandACMEClient w h d False = Inr (client, user)"
    and no_eab: "external_account_binding d = VList []"
    and accepted: "Register w (h @ [CallExpandACMEClient d False]) client
        \<lparr>TermsOfServiceAgreed = True\<rparr> = Inr reg"
    and looked_up: "expandACMEClient w
        (h @ [CallExpandACMEClient d False,
              CallRegister client \<lparr>TermsOfServiceAgreed = True\<rparr>])
        (d\<lparr>Id := URI reg\<rparr>) True = Inr (c1, u1)"
    and refreshed: "expandACMEClient w
        (h @ [CallExpandACMEClient d False,
              CallRegister client \<lparr>TermsOfServiceAgreed = True\<rparr>,
              CallExpandACMEClient (d\<lparr>Id := URI reg\<rparr>) True])
        (d\<lparr>registration_url := URI (Registration u1), Id := URI reg\<rparr>) True
        = Inr (c2, u2)"
  shows "resourceACMERegistrationCreate w h d =
      Inr (d\<lparr>registration_url := URI (Registration u1), Id := URI reg\<rparr>, [],
           h @ [CallExpandACMEClient d False,
                CallRegister client \<lparr>TermsOfServiceAgreed = True\<rparr>,
                CallExpandACMEClient (d\<lparr>Id := URI reg\<rparr>) True])
     \<and> resourceACMERegistrationRead w
          (h @ [CallExpandACMEClient d False,
                CallRegister client \<lparr>TermsOfServiceAgreed = True\<rparr>,
                CallExpandACMEClient (d\<lparr>Id := URI reg\<rparr>) True])
          (d\<lparr>registration_url := URI (Registration u1), Id := URI reg\<rparr>) =
        (d\<lparr>registration_url := URI (Registration u2), Id := URI reg\<rparr>, [],
         h @ [CallExpandACMEClient d False,
              CallRegister client \<lparr>TermsOfServiceAgreed = True\<rparr>,
              CallExpandACMEClient (d\<lparr>Id := URI reg\<rparr>) True,
              CallExpandACMEClient
                (d\<lparr>registration_url := URI (Registration u1), Id := URI reg\<rparr>) True])"
proof -
  let ?h2 = "h @ [CallExpandACMEClient d False,
                  CallRegister client \<lparr>TermsOfServiceAgreed = True\<rparr>]"
  let ?d1 = "d\<lparr>registration_url := URI (Registration u1), Id := URI reg\<rparr>"
  let ?h3 = "?h2 @ [CallExpandACMEClient (d\<lparr>Id := URI reg\<rparr>) True]"
  from no_eab accepted have
    "register_account w (h @ [CallExpandACMEClient d False]) client d = Inr (Inr reg, ?h2)"
    by (simp add: register_account_plain)
  from Create_registered [OF client this]
  have "resourceACMERegistrationCreate w h d =
      Inr (resourceACMERegistrationRead w ?h2 (SetId d (URI reg)))" .
  with looked_up have c: "resourceACMERegistrationCreate w h d = Inr (?d1, [], ?h3)"
    by (simp add: resourceACMERegistrationRead_def SetId_def saveACMERegistration_def
        FromErr_def)
  from refreshed have r: "resourceACMERegistrationRead w ?h3 ?d1 =
      (d\<lparr>registration_url := URI (Registration u2), Id := URI reg\<rparr>, [],
       ?h3 @ [CallExpandACMEClient ?d1 True])"
    by (simp add: resourceACMERegistrationRead_def saveACMERegistration_def FromErr_def)
  from c r show ?thesis by simp
qed

theorem create_then_refresh_witness:
  "expandACMEClient ca_world [] plain_record False
     = Inr (''keyA'', \<lparr>Registration = account_1\<rparr>)
   \<and> external_account_binding plain_record = VList []
   \<and> Register ca_world [CallExpandACMEClient plain_record False] ''keyA''
        \<lparr>TermsOfServiceAgreed = True\<rparr> = Inr account_1
   \<and> expandACMEClient ca_world
        [CallExpandACMEClient plain_record False,
         CallRegister ''keyA'' \<lparr>TermsOfServiceAgreed = True\<rparr>]
        (plain_record\<lparr>Id := ''https://ca.example/acct/1''\<rparr>) True
     = Inr (''keyA'', \<lparr>Registration = account_1\<rparr>)
   \<and> expandACMEClient ca_world created_log live_record True
     = Inr (''keyA'', \<lparr>Registration = account_1\<rparr>)
   \<and> resourceACMERegistrationCreate ca_world [] plain_record
     = Inr (live_record, [], created_log)
   \<and> resourceACMERegistrationRead ca_world created_log live_record
     = (live_record, [], created_log @ [CallExpandACMEClient live_record True])
   \<and> Id live_record = URI account_1"
proof -
  have a: "expandACMEClient ca_world [] plain_record False
     = Inr (''keyA'', \<lparr>Registration = account_1\<rparr>)"
    by (simp add: ca_world_def plain_record_def)
  have b: "external_account_binding plain_record = VList []"
    by (simp add: plain_record_def)
  have c: "Register ca_world ([] @ [CallExpandACMEClient plain_record False]) ''keyA''
        \<lparr>TermsOfServiceAgreed = True\<rparr> = Inr account_1"
    by (simp add: ca_world_def)
  have l: "expandACMEClient ca_world
        ([] @ [CallExpandACMEClient plain_record False,
              CallRegister ''keyA'' \<lparr>TermsOfServiceAgreed = True\<rparr>])
        (plain_record\<lparr>Id := URI account_1\<rparr>) True
      = Inr (''keyA'', \<lparr>Registration = account_1\<rparr>)"
    by (simp add: plain_record_def ca_world_def registered_def deactivated_def
        is_registration_def account_1_def)
  have r: "expandACMEClient ca_world
        ([] @ [CallExpandACMEClient plain_record False,
              CallRegister ''keyA'' \<lparr>TermsOfServiceAgreed = True\<rparr>,
              CallExpandACMEClient (plain_record\<lparr>Id := URI account_1\<rparr>) True])
        (plain_record\<lparr>registration_url := URI (Registration \<lparr>Registration = account_1\<rparr>),
                       Id := URI account_1\<rparr>) True
      = Inr (''keyA'', \<lparr>Registration = account_1\<rparr>)"
    by (simp add: plain_record_def ca_world_def registered_def deactivated_def
        is_registration_def account_1_def)
  have u: "URI account_1 = ''https://ca.example/acct/1''"
    by (simp add: account_1_def)
  have d1: "plain_record\<lparr>registration_url := URI (Registration \<lparr>Registration = account_1\<rparr>),
                       Id := URI account_1\<rparr> = live_record"
    by (simp add: plain_record_def live_record_def account_1_def)
  have h3: "[] @ [CallExpandACMEClient plain_record False,
              CallRegister ''keyA'' \<lparr>TermsOfServiceAgreed = True\<rparr>,
              CallExpandACMEClient (plain_record\<lparr>Id := URI account_1\<rparr>) True]
      = created_log"
    by (simp add: created_log_def account_1_def)
  from create_then_refresh [OF a b c l r]
  have "resourceACMERegistrationCreate ca_world [] plain_record
     = Inr (live_record, [], created_log)
   \<and> resourceACMERegistrationRead ca_world created_log live_record
     = (live_record, [], created_log @ [CallExpandACMEClient live_record True])"
    unfolding d1 h3 by (simp add: created_log_def u)
  moreover from l have "expandACMEClient ca_world
        [CallExpandACMEClient plain_record False,
         CallRegister ''keyA'' \<lparr>TermsOfServiceAgreed = True\<rparr>]
        (plain_record\<lparr>Id := ''https://ca.example/acct/1''\<rparr>) True
     = Inr (''keyA'', \<lparr>Registration = account_1\<rparr>)"
    by (simp add: u)
  moreover from r have "expandACMEClient ca_world created_log live_record True
     = Inr (''keyA'', \<lparr>Registration = account_1\<rparr>)"
    unfolding d1 h3 .
  moreover have "Id live_record = URI account_1"
    by (simp add: live_record_def account_1_def)
  ultimately show ?thesis using a b c by simp
qed

text \<open>
  C8 as stated fails. A CA accepts the registration and reports the account as
  deactivated: create and the refresh that follows succeed and keep the record, and no
  status is checked. Another CA accepts the registration and refuses the lookups that
  follow: create returns the refusal, and so does the refresh.
\<close>

theorem create_then_refresh_status_unread:
  "Register stale_status_world [CallExpandACMEClient plain_record False] ''keyA''
        \<lparr>TermsOfServiceAgreed = True\<rparr> = Inr account_1
   \<and> resourceACMERegistrationCreate stale_status_world [] plain_record
     = Inr (live_record, [], created_log)
   \<and> expandACMEClient stale_status_world created_log live_record True
     = Inr (''keyA'', \<lparr>Registration = deactivated_account\<rparr>)
   \<and> Status (Body deactivated_account) = ''deactivated''
   \<and> resourceACMERegistrationRead stale_status_world created_log live_record
     = (live_record, [], created_log @ [CallExpandACMEClient live_record True])
   \<and> Register (lookup_fails_world rate_limited) [CallExpandACMEClient plain_record False]
        ''keyA'' \<lparr>TermsOfServiceAgreed = True\<rparr> = Inr account_1
   \<and> resourceACMERegistrationCreate (lookup_fails_world rate_limited) [] plain_record
     = Inr (plain_record\<lparr>Id := ''https://ca.example/acct/1''\<rparr>,
            [ErrorDiagnostic rate_limited], created_log)
   \<and> resourceACMERegistrationRead (lookup_fails_world rate_limited) created_log
        (plain_record\<lparr>Id := ''https://ca.example/acct/1''\<rparr>)
     = (plain_record\<lparr>Id := ''https://ca.example/acct/1''\<rparr>,
        [ErrorDiagnostic rate_limited],
        created_log
          @ [CallExpandACMEClient (plain_record\<lparr>Id := ''https://ca.example/acct/1''\<rparr>) True])"
  by (simp add: handler_defs stale_status_world_def lookup_fails_world_def
      plain_record_def live_record_def created_log_def account_1_def
      deactivated_account_def rate_limited_def)

end
